theory Spec2Isabelle
  imports Main "HOL-Library.Char_ord" "HOL-Library.List_Lexorder" "HOL-Library.Multiset"
begin

section \<open>The activities service of \<^verbatim>\<open>src/app.py\<close>\<close>

subsection \<open>The two tables\<close>

text \<open>
  \<^verbatim>\<open>init_db\<close> creates two tables. A row of \<^verbatim>\<open>activities\<close> holds
  \<^verbatim>\<open>name TEXT UNIQUE NOT NULL, description TEXT, schedule TEXT, max_participants INTEGER\<close>;
  a row of \<^verbatim>\<open>participants\<close> holds \<^verbatim>\<open>activity_name TEXT NOT NULL, email TEXT NOT NULL\<close>
  under \<^verbatim>\<open>UNIQUE(activity_name, email)\<close>. Both have a surrogate key
  \<^verbatim>\<open>id INTEGER PRIMARY KEY AUTOINCREMENT\<close> that no handler reads
  (\<^verbatim>\<open>activity_row_to_dict\<close> drops it): its only effect is that rowids grow with every
  insertion, so a table is the list of its rows in rowid order, which is insertion order.
\<close>

record activity_row =
  name :: string
  description :: string
  schedule :: string
  max_participants :: int

record participant_row =
  activity_name :: string
  email :: string

record db =
  activities :: "activity_row list"
  participants :: "participant_row list"

definition empty_db :: db where
  "empty_db = \<lparr>activities = [], participants = []\<rparr>"

text \<open>
  What a handler can raise: FastAPI's \<^verbatim>\<open>HTTPException(status_code, detail)\<close>, and
  \<^verbatim>\<open>sqlite3.IntegrityError\<close> when an \<^verbatim>\<open>INSERT\<close> breaks a \<^verbatim>\<open>UNIQUE\<close> constraint.
\<close>

datatype error = HTTPException nat string | IntegrityError

subsection \<open>The SQL statements the handlers execute\<close>

text \<open>\<^verbatim>\<open>SELECT count(*) as c FROM activities\<close>\<close>

definition count_activities :: "db \<Rightarrow> nat" where
  "count_activities d = length (activities d)"

text \<open>\<^verbatim>\<open>SELECT * FROM activities WHERE name = ?\<close> followed by \<^verbatim>\<open>fetchone()\<close>\<close>

definition select_activity :: "db \<Rightarrow> string \<Rightarrow> activity_row option" where
  "select_activity d a = find (\<lambda>r. name r = a) (activities d)"

text \<open>
  \<^verbatim>\<open>SELECT 1 FROM participants WHERE activity_name = ? AND email = ?\<close> followed by
  \<^verbatim>\<open>fetchone()\<close>
\<close>

definition select_participant :: "db \<Rightarrow> string \<Rightarrow> string \<Rightarrow> participant_row option" where
  "select_participant d a e =
     find (\<lambda>p. activity_name p = a \<and> email p = e) (participants d)"

text \<open>
  \<^verbatim>\<open>INSERT INTO activities (name, description, schedule, max_participants) VALUES (?, ?, ?, ?)\<close>:
  the \<^verbatim>\<open>UNIQUE\<close> constraint on \<^verbatim>\<open>name\<close> rejects a second row of the same name.
\<close>

definition insert_activity :: "db \<Rightarrow> activity_row \<Rightarrow> error + db" where
  "insert_activity d r =
     (if select_activity d (name r) \<noteq> None then Inl IntegrityError
      else Inr (d\<lparr>activities := activities d @ [r]\<rparr>))"

text \<open>
  \<^verbatim>\<open>INSERT INTO participants (activity_name, email) VALUES (?, ?)\<close>: the constraint
  \<^verbatim>\<open>UNIQUE(activity_name, email)\<close> rejects a pair that is already stored.
\<close>

definition insert_participant :: "db \<Rightarrow> string \<Rightarrow> string \<Rightarrow> error + db" where
  "insert_participant d a e =
     (if select_participant d a e \<noteq> None then Inl IntegrityError
      else Inr (d\<lparr>participants := participants d @ [\<lparr>activity_name = a, email = e\<rparr>]\<rparr>))"

text \<open>
  \<^verbatim>\<open>INSERT OR IGNORE INTO participants (activity_name, email) VALUES (?, ?)\<close>: a pair that
  is already stored is skipped without an error.
\<close>

definition insert_or_ignore_participant :: "db \<Rightarrow> string \<Rightarrow> string \<Rightarrow> db" where
  "insert_or_ignore_participant d a e =
     (case insert_participant d a e of Inl _ \<Rightarrow> d | Inr d' \<Rightarrow> d')"

text \<open>\<^verbatim>\<open>DELETE FROM participants WHERE activity_name = ? AND email = ?\<close>\<close>

definition delete_participant :: "db \<Rightarrow> string \<Rightarrow> string \<Rightarrow> db" where
  "delete_participant d a e =
     d\<lparr>participants := filter (\<lambda>p. \<not> (activity_name p = a \<and> email p = e)) (participants d)\<rparr>"

text \<open>
  \<^verbatim>\<open>SELECT email FROM participants WHERE activity_name = ?\<close> followed by
  \<^verbatim>\<open>fetchall()\<close>. The statement has no \<^verbatim>\<open>ORDER BY\<close>, so the rows come in the order of
  the access path. The constraint \<^verbatim>\<open>UNIQUE(activity_name, email)\<close> of the schema makes
  SQLite keep an index on exactly these two columns; it holds every column the statement
  needs and its first column is the one the statement constrains, so the statement is
  answered by a range scan of that index and the emails of one activity come out in index
  order: ascending by \<^verbatim>\<open>email\<close> under the default \<^verbatim>\<open>BINARY\<close> collation, which compares
  the bytes of the text and puts a proper prefix first. That is the lexicographic order
  on \<^typ>\<open>string\<close>.
\<close>

definition select_emails :: "db \<Rightarrow> string \<Rightarrow> string list" where
  "select_emails d a =
     sort (map email (filter (\<lambda>p. activity_name p = a) (participants d)))"

subsection \<open>Initialization\<close>

record seed =
  seed_description :: string
  seed_schedule :: string
  seed_max_participants :: int
  seed_participants :: "string list"

definition seed_activities :: "(string \<times> seed) list" where
  "seed_activities =
   [(''Chess Club'',
     \<lparr>seed_description = ''Learn strategies and compete in chess tournaments'',
      seed_schedule = ''Fridays, 3:30 PM - 5:00 PM'',
      seed_max_participants = 12,
      seed_participants = [''michael@mergington.edu'', ''daniel@mergington.edu'']\<rparr>),
    (''Programming Class'',
     \<lparr>seed_description = ''Learn programming fundamentals and build software projects'',
      seed_schedule = ''Tuesdays and Thursdays, 3:30 PM - 4:30 PM'',
      seed_max_participants = 20,
      seed_participants = [''emma@mergington.edu'', ''sophia@mergington.edu'']\<rparr>),
    (''Gym Class'',
     \<lparr>seed_description = ''Physical education and sports activities'',
      seed_schedule = ''Mondays, Wednesdays, Fridays, 2:00 PM - 3:00 PM'',
      seed_max_participants = 30,
      seed_participants = [''john@mergington.edu'', ''olivia@mergington.edu'']\<rparr>),
    (''Soccer Team'',
     \<lparr>seed_description = ''Join the school soccer team and compete in matches'',
      seed_schedule = ''Tuesdays and Thursdays, 4:00 PM - 5:30 PM'',
      seed_max_participants = 22,
      seed_participants = [''liam@mergington.edu'', ''noah@mergington.edu'']\<rparr>),
    (''Basketball Team'',
     \<lparr>seed_description = ''Practice and play basketball with the school team'',
      seed_schedule = ''Wednesdays and Fridays, 3:30 PM - 5:00 PM'',
      seed_max_participants = 15,
      seed_participants = [''ava@mergington.edu'', ''mia@mergington.edu'']\<rparr>),
    (''Art Club'',
     \<lparr>seed_description = ''Explore your creativity through painting and drawing'',
      seed_schedule = ''Thursdays, 3:30 PM - 5:00 PM'',
      seed_max_participants = 15,
      seed_participants = [''amelia@mergington.edu'', ''harper@mergington.edu'']\<rparr>),
    (''Drama Club'',
     \<lparr>seed_description = ''Act, direct, and produce plays and performances'',
      seed_schedule = ''Mondays and Wednesdays, 4:00 PM - 5:30 PM'',
      seed_max_participants = 20,
      seed_participants = [''ella@mergington.edu'', ''scarlett@mergington.edu'']\<rparr>),
    (''Math Club'',
     \<lparr>seed_description = ''Solve challenging problems and participate in math competitions'',
      seed_schedule = ''Tuesdays, 3:30 PM - 4:30 PM'',
      seed_max_participants = 10,
      seed_participants = [''james@mergington.edu'', ''benjamin@mergington.edu'']\<rparr>),
    (''Debate Team'',
     \<lparr>seed_description = ''Develop public speaking and argumentation skills'',
      seed_schedule = ''Fridays, 4:00 PM - 5:30 PM'',
      seed_max_participants = 12,
      seed_participants = [''charlotte@mergington.edu'', ''henry@mergington.edu'']\<rparr>)]"

text \<open>The inner loop \<^verbatim>\<open>for p in data.get("participants", [])\<close>.\<close>

fun seed_enrollments :: "string \<Rightarrow> string list \<Rightarrow> db \<Rightarrow> db" where
  "seed_enrollments n [] d = d"
| "seed_enrollments n (p # ps) d = seed_enrollments n ps (insert_or_ignore_participant d n p)"

text \<open>
  The outer loop \<^verbatim>\<open>for name, data in seed_activities.items()\<close>. An
  \<^verbatim>\<open>IntegrityError\<close> of the first statement leaves the loop.
\<close>

fun seed_loop :: "(string \<times> seed) list \<Rightarrow> db \<Rightarrow> error + db" where
  "seed_loop [] d = Inr d"
| "seed_loop ((n, s) # rest) d =
     (case insert_activity d
             \<lparr>name = n, description = seed_description s, schedule = seed_schedule s,
              max_participants = seed_max_participants s\<rparr> of
        Inl err \<Rightarrow> Inl err
      | Inr d1 \<Rightarrow> seed_loop rest (seed_enrollments n (seed_participants s) d1))"

text \<open>
  \<^verbatim>\<open>init_db\<close>: the tables are created when absent (an absent table and an empty one are
  both the empty list), and the seed is written only if \<^verbatim>\<open>activities\<close> has no row. The
  seed is committed once, after the loop: an exception inside the loop leaves the stored
  state as it was. The result is the exception raised, if any, and the stored state.
\<close>

definition init_db :: "db \<Rightarrow> error option \<times> db" where
  "init_db d =
     (if count_activities d = 0
      then (case seed_loop seed_activities d of
              Inl err \<Rightarrow> (Some err, d)
            | Inr d' \<Rightarrow> (None, d'))
      else (None, d))"

subsection \<open>The handlers\<close>

text \<open>The dictionary that \<^verbatim>\<open>activity_row_to_dict\<close> builds.\<close>

record activity_dict =
  d_name :: string
  d_description :: string
  d_schedule :: string
  d_max_participants :: int
  d_participants :: "string list"

definition activity_row_to_dict :: "activity_row \<Rightarrow> activity_dict" where
  "activity_row_to_dict row =
     \<lparr>d_name = name row, d_description = description row, d_schedule = schedule row,
      d_max_participants = max_participants row, d_participants = []\<rparr>"

text \<open>
  \<^verbatim>\<open>get_activities\<close>: the loop over the rows of \<^verbatim>\<open>SELECT * FROM activities\<close> stores
  one dictionary per row under the row's name; a later row of the same name would
  overwrite an earlier one.
\<close>

definition get_activities_step ::
  "db \<Rightarrow> (string \<rightharpoonup> activity_dict) \<Rightarrow> activity_row \<Rightarrow> (string \<rightharpoonup> activity_dict)" where
  "get_activities_step d result r =
     result(name r \<mapsto> (activity_row_to_dict r)\<lparr>d_participants := select_emails d (name r)\<rparr>)"

definition get_activities :: "db \<Rightarrow> (string \<rightharpoonup> activity_dict)" where
  "get_activities d = foldl (get_activities_step d) Map.empty (activities d)"

text \<open>
  \<^verbatim>\<open>signup_for_activity\<close> and \<^verbatim>\<open>unregister_from_activity\<close> return the string stored
  under \<^verbatim>\<open>"message"\<close> or raise; the second component is the stored state afterwards. A
  handler that raises has not committed.
\<close>

definition signup_for_activity :: "db \<Rightarrow> string \<Rightarrow> string \<Rightarrow> (error + string) \<times> db" where
  "signup_for_activity d a e =
     (case select_activity d a of
        None \<Rightarrow> (Inl (HTTPException 404 ''Activity not found''), d)
      | Some row \<Rightarrow>
          (case select_participant d a e of
             Some _ \<Rightarrow> (Inl (HTTPException 400 ''Student is already signed up''), d)
           | None \<Rightarrow>
               (case insert_participant d a e of
                  Inl err \<Rightarrow> (Inl err, d)
                | Inr d' \<Rightarrow> (Inr (''Signed up '' @ e @ '' for '' @ a), d'))))"

definition unregister_from_activity :: "db \<Rightarrow> string \<Rightarrow> string \<Rightarrow> (error + string) \<times> db" where
  "unregister_from_activity d a e =
     (case select_activity d a of
        None \<Rightarrow> (Inl (HTTPException 404 ''Activity not found''), d)
      | Some row \<Rightarrow>
          (case select_participant d a e of
             None \<Rightarrow>
               (Inl (HTTPException 400 ''Student is not signed up for this activity''), d)
           | Some _ \<Rightarrow>
               (Inr (''Unregistered '' @ e @ '' from '' @ a), delete_participant d a e)))"

subsection \<open>Sequences of calls\<close>

text \<open>
  The module runs \<^verbatim>\<open>init_db()\<close> when it is imported and the three routes call the
  handlers; \<^verbatim>\<open>get_activities\<close> only reads. \<open>run\<close> is the stored state after a sequence
  of calls on a store that starts without a row.
\<close>

datatype request = Initialize | ListActivities | Enroll string string | Withdraw string string

fun step :: "db \<Rightarrow> request \<Rightarrow> db" where
  "step d Initialize = snd (init_db d)"
| "step d ListActivities = d"
| "step d (Enroll a e) = snd (signup_for_activity d a e)"
| "step d (Withdraw a e) = snd (unregister_from_activity d a e)"

definition run :: "request list \<Rightarrow> db" where
  "run rs = foldl step empty_db rs"

text \<open>
  The state after the first start, and a state in which ``Math Club'' (capacity 10, two
  seeded participants) has received eight more sign-ups.
\<close>

definition seeded_db :: db where
  "seeded_db = run [Initialize]"

definition math_club_full :: db where
  "math_club_full = run
     [Initialize,
      Enroll ''Math Club'' ''s1@mergington.edu'', Enroll ''Math Club'' ''s2@mergington.edu'',
      Enroll ''Math Club'' ''s3@mergington.edu'', Enroll ''Math Club'' ''s4@mergington.edu'',
      Enroll ''Math Club'' ''s5@mergington.edu'', Enroll ''Math Club'' ''s6@mergington.edu'',
      Enroll ''Math Club'' ''s7@mergington.edu'', Enroll ''Math Club'' ''s8@mergington.edu'']"

subsection \<open>The vocabulary of the specification\<close>

text \<open>
  An activity exists when some row of \<^verbatim>\<open>activities\<close> carries its name; the enrollment
  relation is the list of (activity name, email) pairs of \<^verbatim>\<open>participants\<close>, in insertion
  order; the uniqueness invariant says that no pair occurs twice.
\<close>

definition activity_exists :: "db \<Rightarrow> string \<Rightarrow> bool" where
  "activity_exists d a = (a \<in> set (map name (activities d)))"

definition enrollment_pairs :: "db \<Rightarrow> (string \<times> string) list" where
  "enrollment_pairs d = map (\<lambda>p. (activity_name p, email p)) (participants d)"

definition enrolled :: "db \<Rightarrow> string \<Rightarrow> string \<Rightarrow> bool" where
  "enrolled d a e = ((a, e) \<in> set (enrollment_pairs d))"

definition unique_enrollments :: "db \<Rightarrow> bool" where
  "unique_enrollments d = distinct (enrollment_pairs d)"

text \<open>The emails enrolled in one activity, in the order in which they were inserted.\<close>

definition insertion_order_emails :: "db \<Rightarrow> string \<Rightarrow> string list" where
  "insertion_order_emails d a = map snd (filter (\<lambda>x. fst x = a) (enrollment_pairs d))"

section \<open>Auxiliary facts\<close>

lemma row_eq_iff:
  "(p = \<lparr>activity_name = a, email = e\<rparr>) = (activity_name p = a \<and> email p = e)"
  by (cases p) simp

lemma find_Some_member: "find P xs = Some x \<Longrightarrow> x \<in> set xs \<and> P x"
  by (induction xs) (auto split: if_splits)

lemma select_activity_None_iff: "(select_activity d a = None) = (\<not> activity_exists d a)"
  by (auto simp: select_activity_def activity_exists_def find_None_iff)

lemma select_participant_None_iff: "(select_participant d a e = None) = (\<not> enrolled d a e)"
  by (auto simp: select_participant_def enrolled_def enrollment_pairs_def find_None_iff)

lemma enrolled_iff_row:
  "enrolled d a e \<longleftrightarrow> \<lparr>activity_name = a, email = e\<rparr> \<in> set (participants d)"
proof
  assume "enrolled d a e"
  then obtain p where p: "p \<in> set (participants d)" and "activity_name p = a" "email p = e"
    by (auto simp: enrolled_def enrollment_pairs_def)
  then have "p = \<lparr>activity_name = a, email = e\<rparr>"
    by (simp add: row_eq_iff)
  with p show "\<lparr>activity_name = a, email = e\<rparr> \<in> set (participants d)"
    by simp
next
  assume "\<lparr>activity_name = a, email = e\<rparr> \<in> set (participants d)"
  then show "enrolled d a e"
    by (force simp: enrolled_def enrollment_pairs_def image_iff)
qed

lemma removeAll_fresh:
  "\<not> enrolled d a e \<Longrightarrow>
   removeAll \<lparr>activity_name = a, email = e\<rparr> (participants d) = participants d"
  by (simp add: enrolled_iff_row)

lemma activity_exists_participants_update [simp]:
  "activity_exists (d\<lparr>participants := ps\<rparr>) a = activity_exists d a"
  by (simp add: activity_exists_def)

lemma enrolled_append [simp]:
  "enrolled (d\<lparr>participants := participants d @ [\<lparr>activity_name = a, email = e\<rparr>]\<rparr>) a' e' =
     (enrolled d a' e' \<or> (a' = a \<and> e' = e))"
  by (auto simp: enrolled_def enrollment_pairs_def)

subsection \<open>The handlers in terms of the enrollment relation\<close>

lemma insert_participant_fresh:
  "\<not> enrolled d a e \<Longrightarrow>
   insert_participant d a e =
     Inr (d\<lparr>participants := participants d @ [\<lparr>activity_name = a, email = e\<rparr>]\<rparr>)"
  by (simp add: insert_participant_def select_participant_None_iff)

lemma signup_for_activity_eq:
  "signup_for_activity d a e =
     (if \<not> activity_exists d a then (Inl (HTTPException 404 ''Activity not found''), d)
      else if enrolled d a e then (Inl (HTTPException 400 ''Student is already signed up''), d)
      else (Inr (''Signed up '' @ e @ '' for '' @ a),
            d\<lparr>participants := participants d @ [\<lparr>activity_name = a, email = e\<rparr>]\<rparr>))"
proof (cases "select_activity d a")
  case None
  then show ?thesis
    by (simp add: signup_for_activity_def select_activity_None_iff [symmetric])
next
  case (Some row)
  then have ex: "activity_exists d a"
    using select_activity_None_iff [of d a] by simp
  show ?thesis
  proof (cases "select_participant d a e")
    case None
    then have "\<not> enrolled d a e"
      by (simp add: select_participant_None_iff)
    with Some None ex show ?thesis
      by (simp add: signup_for_activity_def insert_participant_fresh)
  next
    case (Some p)
    then have "enrolled d a e"
      using select_participant_None_iff [of d a e] by simp
    with \<open>select_activity d a = Some row\<close> Some ex show ?thesis
      by (simp add: signup_for_activity_def)
  qed
qed

lemma delete_participant_removeAll:
  "delete_participant d a e =
     d\<lparr>participants := removeAll \<lparr>activity_name = a, email = e\<rparr> (participants d)\<rparr>"
proof -
  have "filter (\<lambda>p. \<not> (activity_name p = a \<and> email p = e)) xs =
          removeAll \<lparr>activity_name = a, email = e\<rparr> xs" for xs
    unfolding removeAll_filter_not_eq
    by (rule filter_cong) (auto simp: row_eq_iff [symmetric])
  then show ?thesis by (simp add: delete_participant_def)
qed

lemma unregister_from_activity_eq:
  "unregister_from_activity d a e =
     (if \<not> activity_exists d a then (Inl (HTTPException 404 ''Activity not found''), d)
      else if \<not> enrolled d a e
        then (Inl (HTTPException 400 ''Student is not signed up for this activity''), d)
      else (Inr (''Unregistered '' @ e @ '' from '' @ a),
            d\<lparr>participants := removeAll \<lparr>activity_name = a, email = e\<rparr> (participants d)\<rparr>))"
proof (cases "select_activity d a")
  case None
  then show ?thesis
    by (simp add: unregister_from_activity_def select_activity_None_iff [symmetric])
next
  case (Some row)
  then have ex: "activity_exists d a"
    using select_activity_None_iff [of d a] by simp
  show ?thesis
  proof (cases "select_participant d a e")
    case None
    then have "\<not> enrolled d a e"
      by (simp add: select_participant_None_iff)
    with Some None ex show ?thesis
      by (simp add: unregister_from_activity_def)
  next
    case (Some p)
    then have "enrolled d a e"
      using select_participant_None_iff [of d a e] by simp
    with \<open>select_activity d a = Some row\<close> Some ex show ?thesis
      by (simp add: unregister_from_activity_def delete_participant_removeAll)
  qed
qed

subsection \<open>The listing\<close>

lemma select_emails_insertion_order:
  "select_emails d a = sort (insertion_order_emails d a)"
  by (simp add: select_emails_def insertion_order_emails_def enrollment_pairs_def
      filter_map comp_def)

lemma insertion_order_emails_length:
  "length (insertion_order_emails d a) =
     length (filter (\<lambda>p. activity_name p = a) (participants d))"
  by (simp add: insertion_order_emails_def enrollment_pairs_def filter_map comp_def)

lemma insertion_order_emails_set:
  "set (insertion_order_emails d a) = {e. enrolled d a e}"
  by (auto simp: insertion_order_emails_def enrolled_def image_iff)

lemma get_activities_foldl:
  "foldl (get_activities_step d) m rows a =
     (case find (\<lambda>r. name r = a) (rev rows) of
        None \<Rightarrow> m a
      | Some r \<Rightarrow> Some ((activity_row_to_dict r)\<lparr>d_participants := select_emails d a\<rparr>))"
proof (induction rows rule: rev_induct)
  case Nil
  then show ?case by simp
next
  case (snoc r rows)
  then show ?case by (simp add: get_activities_step_def)
qed

lemma get_activities_lookup:
  "get_activities d a =
     map_option (\<lambda>r. (activity_row_to_dict r)\<lparr>d_participants := select_emails d a\<rparr>)
       (find (\<lambda>r. name r = a) (rev (activities d)))"
  by (simp add: get_activities_def get_activities_foldl split: option.splits)

lemma get_activities_None_iff: "get_activities d a = None \<longleftrightarrow> \<not> activity_exists d a"
  by (auto simp: get_activities_lookup find_None_iff activity_exists_def)

lemma get_activities_Some:
  assumes "get_activities d a = Some r"
  shows "\<exists>row \<in> set (activities d). name row = a \<and>
           r = \<lparr>d_name = a, d_description = description row, d_schedule = schedule row,
                d_max_participants = max_participants row,
                d_participants = sort (insertion_order_emails d a)\<rparr>"
proof -
  from assms obtain row where
    f: "find (\<lambda>r. name r = a) (rev (activities d)) = Some row" and
    r: "r = (activity_row_to_dict row)\<lparr>d_participants := select_emails d a\<rparr>"
    by (auto simp: get_activities_lookup)
  from find_Some_member [OF f] have "row \<in> set (activities d)" "name row = a"
    by simp_all
  with r show ?thesis
    by (auto simp: activity_row_to_dict_def select_emails_insertion_order)
qed

lemma listed_participants_set:
  assumes "get_activities d a = Some r"
  shows "set (d_participants r) = {e. enrolled d a e}"
  using get_activities_Some [OF assms] by (auto simp: insertion_order_emails_set)

subsection \<open>Initialization\<close>

lemma insert_or_ignore_participant_eq:
  "insert_or_ignore_participant d a e =
     (if enrolled d a e then d
      else d\<lparr>participants := participants d @ [\<lparr>activity_name = a, email = e\<rparr>]\<rparr>)"
  by (simp add: insert_or_ignore_participant_def insert_participant_def
      select_participant_None_iff)

lemma seed_enrollments_activities [simp]:
  "activities (seed_enrollments n ps d) = activities d"
  by (induction ps arbitrary: d) (simp_all add: insert_or_ignore_participant_eq)

lemma seed_loop_succeeds:
  assumes "distinct (map fst seeds)"
    and "\<forall>n \<in> set (map fst seeds). \<not> activity_exists d n"
  shows "\<exists>d'. seed_loop seeds d = Inr d' \<and>
           map name (activities d') = map name (activities d) @ map fst seeds"
  using assms
proof (induction seeds arbitrary: d)
  case Nil
  then show ?case by simp
next
  case (Cons x seeds)
  obtain n s where x: "x = (n, s)" by (cases x)
  let ?row = "\<lparr>name = n, description = seed_description s, schedule = seed_schedule s,
              max_participants = seed_max_participants s\<rparr>"
  let ?d1 = "d\<lparr>activities := activities d @ [?row]\<rparr>"
  let ?d2 = "seed_enrollments n (seed_participants s) ?d1"
  from Cons.prems x have ins: "insert_activity d ?row = Inr ?d1"
    by (simp add: insert_activity_def select_activity_None_iff)
  have names: "map name (activities ?d2) = map name (activities d) @ [n]"
    by simp
  from Cons.prems x have "distinct (map fst seeds)"
    and "\<forall>m \<in> set (map fst seeds). \<not> activity_exists ?d2 m"
    by (auto simp: activity_exists_def)
  from Cons.IH [OF this] obtain d' where
    "seed_loop seeds ?d2 = Inr d'"
    "map name (activities d') = map name (activities ?d2) @ map fst seeds"
    by blast
  with ins names x show ?case by simp
qed

lemma seed_names_distinct: "distinct (map fst seed_activities)"
  by (simp add: seed_activities_def)

lemma init_db_empty:
  assumes "activities d = []"
  shows "\<exists>d'. init_db d = (None, d') \<and> map name (activities d') = map fst seed_activities"
proof -
  from assms have "\<forall>n \<in> set (map fst seed_activities). \<not> activity_exists d n"
    by (simp add: activity_exists_def)
  from seed_loop_succeeds [OF seed_names_distinct this] assms show ?thesis
    by (auto simp: init_db_def count_activities_def)
qed

lemma init_db_nonempty: "activities d \<noteq> [] \<Longrightarrow> init_db d = (None, d)"
  by (simp add: init_db_def count_activities_def)

subsection \<open>Uniqueness of the enrollment pairs\<close>

lemma unique_insert_or_ignore:
  "unique_enrollments d \<Longrightarrow> unique_enrollments (insert_or_ignore_participant d a e)"
  by (auto simp: insert_or_ignore_participant_eq unique_enrollments_def enrolled_def
      enrollment_pairs_def)

lemma unique_seed_enrollments:
  "unique_enrollments d \<Longrightarrow> unique_enrollments (seed_enrollments n ps d)"
  by (induction ps arbitrary: d) (simp_all add: unique_insert_or_ignore)

lemma unique_seed_loop:
  "unique_enrollments d \<Longrightarrow> seed_loop seeds d = Inr d' \<Longrightarrow> unique_enrollments d'"
proof (induction seeds arbitrary: d)
  case Nil
  then show ?case by simp
next
  case (Cons x seeds)
  obtain n s where x: "x = (n, s)" by (cases x)
  from Cons.prems(2) x obtain d1 where
    d1: "insert_activity d \<lparr>name = n, description = seed_description s,
           schedule = seed_schedule s, max_participants = seed_max_participants s\<rparr> = Inr d1"
    and rest: "seed_loop seeds (seed_enrollments n (seed_participants s) d1) = Inr d'"
    by (auto split: sum.splits)
  from d1 have "participants d1 = participants d"
    by (auto simp: insert_activity_def split: if_splits)
  with Cons.prems(1) have "unique_enrollments d1"
    by (simp add: unique_enrollments_def enrollment_pairs_def)
  then have "unique_enrollments (seed_enrollments n (seed_participants s) d1)"
    by (rule unique_seed_enrollments)
  from Cons.IH [OF this rest] show ?case .
qed

lemma unique_init_db: "unique_enrollments d \<Longrightarrow> unique_enrollments (snd (init_db d))"
  by (auto simp: init_db_def split: sum.splits dest: unique_seed_loop)

lemma unique_signup:
  "unique_enrollments d \<Longrightarrow> unique_enrollments (snd (signup_for_activity d a e))"
  by (auto simp: signup_for_activity_eq unique_enrollments_def enrolled_def enrollment_pairs_def)

lemma unique_unregister:
  "unique_enrollments d \<Longrightarrow> unique_enrollments (snd (unregister_from_activity d a e))"
  by (auto simp: unregister_from_activity_eq unique_enrollments_def enrollment_pairs_def
      removeAll_filter_not_eq distinct_map_filter)

lemma unique_step: "unique_enrollments d \<Longrightarrow> unique_enrollments (step d r)"
  by (cases r) (simp_all add: unique_init_db unique_signup unique_unregister)

lemma unique_foldl_step:
  "unique_enrollments d \<Longrightarrow> unique_enrollments (foldl step d rs)"
  by (induction rs arbitrary: d) (simp_all add: unique_step)

section \<open>The claims\<close>

subsection \<open>Sign-up and withdrawal\<close>

text \<open>
  Claim C1. In every state and for every activity name and email, \<^verbatim>\<open>signup_for_activity\<close>
  raises 404 ``Activity not found'' when no activity has that name, whatever the email;
  raises 400 ``Student is already signed up'' when the activity exists and the pair is
  enrolled; and otherwise appends exactly the row of that pair to \<^verbatim>\<open>participants\<close>,
  commits and returns the message ``Signed up email for activity''. The \<^verbatim>\<open>INSERT\<close>
  never fails on its \<^verbatim>\<open>UNIQUE\<close> constraint.
\<close>

theorem signup_for_activity_spec:
  "(\<not> activity_exists d a \<longrightarrow>
      signup_for_activity d a e = (Inl (HTTPException 404 ''Activity not found''), d)) \<and>
   (activity_exists d a \<and> enrolled d a e \<longrightarrow>
      signup_for_activity d a e =
        (Inl (HTTPException 400 ''Student is already signed up''), d)) \<and>
   (activity_exists d a \<and> \<not> enrolled d a e \<longrightarrow>
      signup_for_activity d a e =
        (Inr (''Signed up '' @ e @ '' for '' @ a),
         d\<lparr>participants := participants d @ [\<lparr>activity_name = a, email = e\<rparr>]\<rparr>))"
  by (simp add: signup_for_activity_eq)

theorem signup_for_activity_spec_witness:
  "signup_for_activity seeded_db ''Knitting'' ''new@mergington.edu'' =
     (Inl (HTTPException 404 ''Activity not found''), seeded_db) \<and>
   signup_for_activity seeded_db ''Chess Club'' ''michael@mergington.edu'' =
     (Inl (HTTPException 400 ''Student is already signed up''), seeded_db) \<and>
   signup_for_activity seeded_db ''Chess Club'' ''new@mergington.edu'' =
     (Inr ''Signed up new@mergington.edu for Chess Club'',
      seeded_db\<lparr>participants := participants seeded_db @
        [\<lparr>activity_name = ''Chess Club'', email = ''new@mergington.edu''\<rparr>]\<rparr>)"
proof -
  have unknown: "\<not> activity_exists seeded_db ''Knitting''"
    by code_simp
  have known: "activity_exists seeded_db ''Chess Club''"
    by code_simp
  have old: "enrolled seeded_db ''Chess Club'' ''michael@mergington.edu''"
    by code_simp
  have new: "\<not> enrolled seeded_db ''Chess Club'' ''new@mergington.edu''"
    by code_simp
  show ?thesis
    using signup_for_activity_spec [of seeded_db "''Knitting''" "''new@mergington.edu''"]
      signup_for_activity_spec [of seeded_db "''Chess Club''" "''michael@mergington.edu''"]
      signup_for_activity_spec [of seeded_db "''Chess Club''" "''new@mergington.edu''"]
      unknown known old new
    by simp
qed

text \<open>
  Claim C2. \<^verbatim>\<open>unregister_from_activity\<close> raises 404 exactly when no activity has the name,
  raises 400 ``Student is not signed up for this activity'' exactly when the activity
  exists and the pair is not enrolled, and returns ``Unregistered email from activity''
  with exactly the row of that pair deleted exactly when the activity exists and the
  pair is enrolled; in the two failing cases nothing is stored.
\<close>

theorem unregister_from_activity_spec:
  "(fst (unregister_from_activity d a e) = Inl (HTTPException 404 ''Activity not found'')
      \<longleftrightarrow> \<not> activity_exists d a) \<and>
   (fst (unregister_from_activity d a e) =
      Inl (HTTPException 400 ''Student is not signed up for this activity'')
      \<longleftrightarrow> activity_exists d a \<and> \<not> enrolled d a e) \<and>
   (unregister_from_activity d a e =
      (Inr (''Unregistered '' @ e @ '' from '' @ a),
       d\<lparr>participants := removeAll \<lparr>activity_name = a, email = e\<rparr> (participants d)\<rparr>)
      \<longleftrightarrow> activity_exists d a \<and> enrolled d a e) \<and>
   (\<not> (activity_exists d a \<and> enrolled d a e) \<longrightarrow> snd (unregister_from_activity d a e) = d)"
  by (simp add: unregister_from_activity_eq)

theorem unregister_from_activity_spec_witness:
  "fst (unregister_from_activity seeded_db ''Knitting'' ''michael@mergington.edu'') =
     Inl (HTTPException 404 ''Activity not found'') \<and>
   fst (unregister_from_activity seeded_db ''Chess Club'' ''new@mergington.edu'') =
     Inl (HTTPException 400 ''Student is not signed up for this activity'') \<and>
   unregister_from_activity seeded_db ''Chess Club'' ''michael@mergington.edu'' =
     (Inr ''Unregistered michael@mergington.edu from Chess Club'',
      seeded_db\<lparr>participants :=
        removeAll \<lparr>activity_name = ''Chess Club'', email = ''michael@mergington.edu''\<rparr>
          (participants seeded_db)\<rparr>)"
proof -
  have unknown: "\<not> activity_exists seeded_db ''Knitting''"
    by code_simp
  have known: "activity_exists seeded_db ''Chess Club''"
    by code_simp
  have old: "enrolled seeded_db ''Chess Club'' ''michael@mergington.edu''"
    by code_simp
  have new: "\<not> enrolled seeded_db ''Chess Club'' ''new@mergington.edu''"
    by code_simp
  show ?thesis
    using unregister_from_activity_spec [of seeded_db "''Knitting''" "''michael@mergington.edu''"]
      unregister_from_activity_spec [of seeded_db "''Chess Club''" "''new@mergington.edu''"]
      unregister_from_activity_spec [of seeded_db "''Chess Club''" "''michael@mergington.edu''"]
      unknown known old new
    by simp
qed

subsection \<open>The listing\<close>

text \<open>
  Claim C3, as the code has it. \<^verbatim>\<open>get_activities\<close> maps exactly the names of the stored
  activities, each to a dictionary with the name, description, schedule and capacity of a
  row of that name and a participants list holding the emails of the enrollment rows of
  that activity, each row once, so that its length is the number of those rows. The list
  is in ascending order of the email, the order of the index that answers the query, and
  not in the order in which the rows were inserted.
\<close>

theorem get_activities_participants:
  "(get_activities d a = None \<longleftrightarrow> \<not> activity_exists d a) \<and>
   (\<forall>r. get_activities d a = Some r \<longrightarrow>
      d_name r = a \<and>
      (\<exists>row \<in> set (activities d). name row = a \<and> d_description r = description row \<and>
         d_schedule r = schedule row \<and> d_max_participants r = max_participants row) \<and>
      d_participants r = sort (insertion_order_emails d a) \<and>
      mset (d_participants r) = mset (insertion_order_emails d a) \<and>
      length (d_participants r) =
        length (filter (\<lambda>p. activity_name p = a) (participants d)))"
proof -
  have "d_name r = a \<and>
      (\<exists>row \<in> set (activities d). name row = a \<and> d_description r = description row \<and>
         d_schedule r = schedule row \<and> d_max_participants r = max_participants row) \<and>
      d_participants r = sort (insertion_order_emails d a) \<and>
      mset (d_participants r) = mset (insertion_order_emails d a) \<and>
      length (d_participants r) =
        length (filter (\<lambda>p. activity_name p = a) (participants d))"
    if "get_activities d a = Some r" for r
    using get_activities_Some [OF that] by (auto simp: insertion_order_emails_length)
  with get_activities_None_iff [of d a] show ?thesis by blast
qed

text \<open>After the first start ``Chess Club'' is listed with its two seeded participants.\<close>

theorem get_activities_participants_witness:
  "get_activities seeded_db ''Chess Club'' =
     Some \<lparr>d_name = ''Chess Club'',
       d_description = ''Learn strategies and compete in chess tournaments'',
       d_schedule = ''Fridays, 3:30 PM - 5:00 PM'', d_max_participants = 12,
       d_participants = [''daniel@mergington.edu'', ''michael@mergington.edu'']\<rparr> \<and>
   activity_exists seeded_db ''Chess Club'' \<and>
   sort (insertion_order_emails seeded_db ''Chess Club'') =
     [''daniel@mergington.edu'', ''michael@mergington.edu''] \<and>
   length (filter (\<lambda>p. activity_name p = ''Chess Club'') (participants seeded_db)) = 2"
proof -
  have listed: "get_activities seeded_db ''Chess Club'' =
     Some \<lparr>d_name = ''Chess Club'',
       d_description = ''Learn strategies and compete in chess tournaments'',
       d_schedule = ''Fridays, 3:30 PM - 5:00 PM'', d_max_participants = 12,
       d_participants = [''daniel@mergington.edu'', ''michael@mergington.edu'']\<rparr>"
    by code_simp
  show ?thesis
    using get_activities_participants [of seeded_db "''Chess Club''"] listed
    by simp
qed

text \<open>
  Claim C3 as written asks for insertion order. The seed inserts
  \<^verbatim>\<open>michael@mergington.edu\<close> before \<^verbatim>\<open>daniel@mergington.edu\<close> into ``Chess Club'';
  the listing after the first start returns them the other way round.
\<close>

theorem get_activities_insertion_order_counterexample:
  "map_option d_participants (get_activities seeded_db ''Chess Club'') =
     Some [''daniel@mergington.edu'', ''michael@mergington.edu''] \<and>
   insertion_order_emails seeded_db ''Chess Club'' =
     [''michael@mergington.edu'', ''daniel@mergington.edu''] \<and>
   map_option d_participants (get_activities seeded_db ''Chess Club'') \<noteq>
     Some (insertion_order_emails seeded_db ''Chess Club'')"
  by code_simp

subsection \<open>Sequences of sign-ups and withdrawals\<close>

text \<open>
  Claim C4. When the activity exists and the pair is not enrolled, the first of two
  successive sign-ups of that pair succeeds, the second raises 400 ``Student is already
  signed up'', and the second leaves the state of the first: the pair is stored once, at
  the end of the table.
\<close>

theorem signup_twice:
  assumes "activity_exists d a" and "\<not> enrolled d a e"
  shows "fst (signup_for_activity d a e) = Inr (''Signed up '' @ e @ '' for '' @ a) \<and>
         fst (signup_for_activity (snd (signup_for_activity d a e)) a e) =
           Inl (HTTPException 400 ''Student is already signed up'') \<and>
         snd (signup_for_activity (snd (signup_for_activity d a e)) a e) =
           snd (signup_for_activity d a e) \<and>
         participants (snd (signup_for_activity d a e)) =
           participants d @ [\<lparr>activity_name = a, email = e\<rparr>]"
proof -
  let ?d1 = "d\<lparr>participants := participants d @ [\<lparr>activity_name = a, email = e\<rparr>]\<rparr>"
  from assms have first:
    "signup_for_activity d a e = (Inr (''Signed up '' @ e @ '' for '' @ a), ?d1)"
    by (simp add: signup_for_activity_eq)
  from assms have second:
    "signup_for_activity ?d1 a e = (Inl (HTTPException 400 ''Student is already signed up''), ?d1)"
    by (simp add: signup_for_activity_eq)
  from first second show ?thesis by simp
qed

theorem signup_twice_witness:
  "activity_exists seeded_db ''Chess Club'' \<and>
   \<not> enrolled seeded_db ''Chess Club'' ''new@mergington.edu'' \<and>
   fst (signup_for_activity seeded_db ''Chess Club'' ''new@mergington.edu'') =
     Inr ''Signed up new@mergington.edu for Chess Club'' \<and>
   fst (signup_for_activity
          (snd (signup_for_activity seeded_db ''Chess Club'' ''new@mergington.edu''))
          ''Chess Club'' ''new@mergington.edu'') =
     Inl (HTTPException 400 ''Student is already signed up'')"
proof -
  have known: "activity_exists seeded_db ''Chess Club''"
    by code_simp
  have new: "\<not> enrolled seeded_db ''Chess Club'' ''new@mergington.edu''"
    by code_simp
  show ?thesis
    using signup_twice [OF known new] known new by simp
qed

text \<open>
  Claim C5. When the activity exists and the pair is not enrolled, signing up and then
  unregistering that pair succeeds both times and gives back the state before the
  sign-up; the listing shows the email under the activity in between and no longer
  afterwards.
\<close>

theorem signup_then_unregister:
  assumes "activity_exists d a" and "\<not> enrolled d a e"
  shows "fst (signup_for_activity d a e) = Inr (''Signed up '' @ e @ '' for '' @ a) \<and>
         (\<exists>r. get_activities (snd (signup_for_activity d a e)) a = Some r \<and>
              e \<in> set (d_participants r)) \<and>
         fst (unregister_from_activity (snd (signup_for_activity d a e)) a e) =
           Inr (''Unregistered '' @ e @ '' from '' @ a) \<and>
         snd (unregister_from_activity (snd (signup_for_activity d a e)) a e) = d \<and>
         (\<exists>r. get_activities
                (snd (unregister_from_activity (snd (signup_for_activity d a e)) a e)) a =
                Some r \<and>
              e \<notin> set (d_participants r))"
proof -
  let ?d1 = "d\<lparr>participants := participants d @ [\<lparr>activity_name = a, email = e\<rparr>]\<rparr>"
  from assms have first:
    "signup_for_activity d a e = (Inr (''Signed up '' @ e @ '' for '' @ a), ?d1)"
    by (simp add: signup_for_activity_eq)
  from assms have second:
    "unregister_from_activity ?d1 a e = (Inr (''Unregistered '' @ e @ '' from '' @ a), d)"
    by (simp add: unregister_from_activity_eq removeAll_fresh)
  from assms(1) obtain r1 where r1: "get_activities ?d1 a = Some r1"
    using get_activities_None_iff [of ?d1 a] by auto
  have in1: "e \<in> set (d_participants r1)"
    by (simp add: listed_participants_set [OF r1])
  from assms(1) obtain r where r: "get_activities d a = Some r"
    using get_activities_None_iff [of d a] by auto
  from assms(2) have out: "e \<notin> set (d_participants r)"
    by (simp add: listed_participants_set [OF r])
  from first second r1 in1 r out show ?thesis by simp
qed

theorem signup_then_unregister_witness:
  "activity_exists seeded_db ''Chess Club'' \<and>
   \<not> enrolled seeded_db ''Chess Club'' ''new@mergington.edu'' \<and>
   fst (unregister_from_activity
          (snd (signup_for_activity seeded_db ''Chess Club'' ''new@mergington.edu''))
          ''Chess Club'' ''new@mergington.edu'') =
     Inr ''Unregistered new@mergington.edu from Chess Club'' \<and>
   snd (unregister_from_activity
          (snd (signup_for_activity seeded_db ''Chess Club'' ''new@mergington.edu''))
          ''Chess Club'' ''new@mergington.edu'') = seeded_db"
proof -
  have known: "activity_exists seeded_db ''Chess Club''"
    by code_simp
  have new: "\<not> enrolled seeded_db ''Chess Club'' ''new@mergington.edu''"
    by code_simp
  show ?thesis
    using signup_then_unregister [OF known new] known new by simp
qed

text \<open>
  Claim C6. A call of \<^verbatim>\<open>signup_for_activity\<close> or \<^verbatim>\<open>unregister_from_activity\<close> that
  raises leaves both tables as they were.
\<close>

theorem failure_leaves_state:
  "(\<forall>err. fst (signup_for_activity d a e) = Inl err \<longrightarrow>
      snd (signup_for_activity d a e) = d) \<and>
   (\<forall>err. fst (unregister_from_activity d a e) = Inl err \<longrightarrow>
      snd (unregister_from_activity d a e) = d)"
  by (simp add: signup_for_activity_eq unregister_from_activity_eq)

theorem failure_leaves_state_witness:
  "fst (signup_for_activity seeded_db ''Chess Club'' ''michael@mergington.edu'') =
     Inl (HTTPException 400 ''Student is already signed up'') \<and>
   snd (signup_for_activity seeded_db ''Chess Club'' ''michael@mergington.edu'') = seeded_db \<and>
   fst (unregister_from_activity seeded_db ''Knitting'' ''michael@mergington.edu'') =
     Inl (HTTPException 404 ''Activity not found'') \<and>
   snd (unregister_from_activity seeded_db ''Knitting'' ''michael@mergington.edu'') = seeded_db"
proof -
  have conflict: "fst (signup_for_activity seeded_db ''Chess Club'' ''michael@mergington.edu'') =
     Inl (HTTPException 400 ''Student is already signed up'')"
    by code_simp
  have not_found: "fst (unregister_from_activity seeded_db ''Knitting'' ''michael@mergington.edu'') =
     Inl (HTTPException 404 ''Activity not found'')"
    by code_simp
  show ?thesis
    using failure_leaves_state [of seeded_db "''Chess Club''" "''michael@mergington.edu''"]
      failure_leaves_state [of seeded_db "''Knitting''" "''michael@mergington.edu''"]
      conflict not_found
    by simp
qed

text \<open>
  Claim C7. The capacity is not checked: when the activity exists and the pair is not
  enrolled, the sign-up succeeds although the activity already has at least
  \<^verbatim>\<open>max_participants\<close> enrollment rows, and afterwards it has more rows than that.
\<close>

theorem signup_ignores_capacity:
  assumes "select_activity d a = Some row" and "\<not> enrolled d a e"
    and "max_participants row \<le> int (length (insertion_order_emails d a))"
  shows "signup_for_activity d a e =
           (Inr (''Signed up '' @ e @ '' for '' @ a),
            d\<lparr>participants := participants d @ [\<lparr>activity_name = a, email = e\<rparr>]\<rparr>) \<and>
         max_participants row <
           int (length (insertion_order_emails (snd (signup_for_activity d a e)) a))"
proof -
  from assms(1) have "activity_exists d a"
    using select_activity_None_iff [of d a] by simp
  with assms(2) have eq: "signup_for_activity d a e =
           (Inr (''Signed up '' @ e @ '' for '' @ a),
            d\<lparr>participants := participants d @ [\<lparr>activity_name = a, email = e\<rparr>]\<rparr>)"
    by (simp add: signup_for_activity_eq)
  have "length (insertion_order_emails (snd (signup_for_activity d a e)) a) =
          Suc (length (insertion_order_emails d a))"
    by (simp add: eq insertion_order_emails_def enrollment_pairs_def)
  with assms(3) eq show ?thesis by simp
qed

theorem signup_ignores_capacity_witness:
  "select_activity math_club_full ''Math Club'' =
     Some \<lparr>name = ''Math Club'',
       description = ''Solve challenging problems and participate in math competitions'',
       schedule = ''Tuesdays, 3:30 PM - 4:30 PM'', max_participants = 10\<rparr> \<and>
   length (insertion_order_emails math_club_full ''Math Club'') = 10 \<and>
   \<not> enrolled math_club_full ''Math Club'' ''late@mergington.edu'' \<and>
   fst (signup_for_activity math_club_full ''Math Club'' ''late@mergington.edu'') =
     Inr ''Signed up late@mergington.edu for Math Club'' \<and>
   10 < int (length (insertion_order_emails
          (snd (signup_for_activity math_club_full ''Math Club'' ''late@mergington.edu''))
          ''Math Club''))"
proof -
  have row: "select_activity math_club_full ''Math Club'' =
     Some \<lparr>name = ''Math Club'',
       description = ''Solve challenging problems and participate in math competitions'',
       schedule = ''Tuesdays, 3:30 PM - 4:30 PM'', max_participants = 10\<rparr>"
    by code_simp
  have count: "length (insertion_order_emails math_club_full ''Math Club'') = 10"
    by code_simp
  have new: "\<not> enrolled math_club_full ''Math Club'' ''late@mergington.edu''"
    by code_simp
  have full: "max_participants \<lparr>name = ''Math Club'',
       description = ''Solve challenging problems and participate in math competitions'',
       schedule = ''Tuesdays, 3:30 PM - 4:30 PM'', max_participants = 10\<rparr>
     \<le> int (length (insertion_order_emails math_club_full ''Math Club''))"
    by (simp add: count)
  note at_capacity = signup_ignores_capacity [OF row new full]
  have accepted:
    "fst (signup_for_activity math_club_full ''Math Club'' ''late@mergington.edu'') =
       Inr ''Signed up late@mergington.edu for Math Club''"
    using at_capacity [THEN conjunct1] by simp
  have over: "10 < int (length (insertion_order_emails
          (snd (signup_for_activity math_club_full ''Math Club'' ''late@mergington.edu''))
          ''Math Club''))"
    using at_capacity [THEN conjunct2] by simp
  from row count new accepted over show ?thesis
    by blast
qed

subsection \<open>Initialization and the invariant\<close>

text \<open>
  Claim C8. \<^verbatim>\<open>init_db\<close> writes the seed only into a store without activities, where it
  stores exactly the seeded names; on a store with an activity it changes nothing; it never
  raises; and running it again on its own result changes nothing.
\<close>

theorem init_db_idempotent:
  "(activities d \<noteq> [] \<longrightarrow> init_db d = (None, d)) \<and>
   (activities d = [] \<longrightarrow>
      map name (activities (snd (init_db d))) = map fst seed_activities) \<and>
   fst (init_db d) = None \<and>
   activities (snd (init_db d)) \<noteq> [] \<and>
   init_db (snd (init_db d)) = (None, snd (init_db d))"
proof (cases "activities d = []")
  case True
  from init_db_empty [OF True] obtain d' where
    d': "init_db d = (None, d')" "map name (activities d') = map fst seed_activities"
    by blast
  then have "activities d' \<noteq> []"
    by (auto simp: seed_activities_def)
  with d' True show ?thesis
    by (simp add: init_db_nonempty)
next
  case False
  then show ?thesis by (simp add: init_db_nonempty)
qed

theorem init_db_idempotent_witness:
  "activities seeded_db \<noteq> [] \<and>
   init_db seeded_db = (None, seeded_db) \<and>
   map_option d_participants (get_activities (snd (init_db seeded_db)) ''Chess Club'') =
     Some [''daniel@mergington.edu'', ''michael@mergington.edu''] \<and>
   length (participants (snd (init_db seeded_db))) = 18 \<and>
   length (activities (snd (init_db seeded_db))) = 9"
proof -
  have nonempty: "activities seeded_db \<noteq> []"
    by code_simp
  have chess: "map_option d_participants (get_activities seeded_db ''Chess Club'') =
     Some [''daniel@mergington.edu'', ''michael@mergington.edu'']"
    by code_simp
  have rows: "length (participants seeded_db) = 18" "length (activities seeded_db) = 9"
    by code_simp+
  show ?thesis
    using init_db_idempotent [of seeded_db] nonempty chess rows by simp
qed

text \<open>
  Claim C9. No (activity name, email) pair is stored twice in any state reached from the
  empty store by a sequence of initializations, listings, sign-ups and withdrawals, and
  each of these operations keeps the pairs distinct.
\<close>

theorem unique_enrollments_invariant:
  "unique_enrollments (run rs) \<and>
   (unique_enrollments d \<longrightarrow>
      unique_enrollments (step d r) \<and>
      unique_enrollments (snd (init_db d)) \<and>
      unique_enrollments (snd (signup_for_activity d a e)) \<and>
      unique_enrollments (snd (unregister_from_activity d a e)))"
proof -
  have "unique_enrollments empty_db"
    by (simp add: unique_enrollments_def enrollment_pairs_def empty_db_def)
  then have "unique_enrollments (run rs)"
    unfolding run_def by (rule unique_foldl_step)
  then show ?thesis
    by (simp add: unique_step unique_init_db unique_signup unique_unregister)
qed

theorem unique_enrollments_invariant_witness:
  "unique_enrollments seeded_db \<and>
   unique_enrollments
     (run [Initialize, Enroll ''Chess Club'' ''new@mergington.edu'', ListActivities,
           Enroll ''Chess Club'' ''new@mergington.edu'', Initialize,
           Withdraw ''Art Club'' ''amelia@mergington.edu'']) \<and>
   unique_enrollments (step seeded_db (Enroll ''Art Club'' ''new@mergington.edu'')) \<and>
   unique_enrollments (snd (init_db seeded_db)) \<and>
   unique_enrollments (snd (signup_for_activity seeded_db ''Chess Club'' ''michael@mergington.edu'')) \<and>
   unique_enrollments (snd (unregister_from_activity seeded_db ''Chess Club'' ''michael@mergington.edu''))"
proof -
  have seeded: "unique_enrollments seeded_db"
    by code_simp
  show ?thesis
    using unique_enrollments_invariant
      [of "[Initialize, Enroll ''Chess Club'' ''new@mergington.edu'', ListActivities,
            Enroll ''Chess Club'' ''new@mergington.edu'', Initialize,
            Withdraw ''Art Club'' ''amelia@mergington.edu'']"
          seeded_db "Enroll ''Art Club'' ''new@mergington.edu''"
          "''Chess Club''" "''michael@mergington.edu''"]
      seeded
    by simp
qed

text \<open>
  Claim C10. A successful sign-up leaves \<^verbatim>\<open>activities\<close> alone and changes
  \<^verbatim>\<open>participants\<close> only by appending the row of its pair, which was not there; a
  successful withdrawal leaves \<^verbatim>\<open>activities\<close> alone and changes \<^verbatim>\<open>participants\<close> only
  by removing the row of its pair, every other row staying in place, and under the
  uniqueness invariant that is a single row.
\<close>

theorem mutation_frame:
  "(\<forall>msg. fst (signup_for_activity d a e) = Inr msg \<longrightarrow>
      activities (snd (signup_for_activity d a e)) = activities d \<and>
      participants (snd (signup_for_activity d a e)) =
        participants d @ [\<lparr>activity_name = a, email = e\<rparr>] \<and>
      \<lparr>activity_name = a, email = e\<rparr> \<notin> set (participants d)) \<and>
   (\<forall>msg. fst (unregister_from_activity d a e) = Inr msg \<longrightarrow>
      activities (snd (unregister_from_activity d a e)) = activities d \<and>
      participants (snd (unregister_from_activity d a e)) =
        removeAll \<lparr>activity_name = a, email = e\<rparr> (participants d) \<and>
      \<lparr>activity_name = a, email = e\<rparr> \<in> set (participants d) \<and>
      (unique_enrollments d \<longrightarrow>
         participants (snd (unregister_from_activity d a e)) =
           remove1 \<lparr>activity_name = a, email = e\<rparr> (participants d) \<and>
         Suc (length (participants (snd (unregister_from_activity d a e)))) =
           length (participants d)))"
proof -
  let ?row = "\<lparr>activity_name = a, email = e\<rparr>"
  have mem: "enrolled d a e \<longleftrightarrow> ?row \<in> set (participants d)"
    by (rule enrolled_iff_row)
  have dist: "distinct (participants d)" if "unique_enrollments d"
    using that by (simp add: unique_enrollments_def enrollment_pairs_def distinct_map)
  have rm: "removeAll ?row (participants d) = remove1 ?row (participants d)"
    if "unique_enrollments d"
    using dist [OF that] by (simp add: distinct_remove1_removeAll)
  have len: "Suc (length (remove1 ?row (participants d))) = length (participants d)"
    if "?row \<in> set (participants d)"
    using that by (simp add: length_remove1) (cases "participants d", auto)
  show ?thesis
    using mem rm len
    by (auto simp: signup_for_activity_eq unregister_from_activity_eq split: if_splits)
qed

theorem mutation_frame_witness:
  "fst (signup_for_activity seeded_db ''Chess Club'' ''new@mergington.edu'') =
     Inr ''Signed up new@mergington.edu for Chess Club'' \<and>
   activities (snd (signup_for_activity seeded_db ''Chess Club'' ''new@mergington.edu'')) =
     activities seeded_db \<and>
   participants (snd (signup_for_activity seeded_db ''Chess Club'' ''new@mergington.edu'')) =
     participants seeded_db @ [\<lparr>activity_name = ''Chess Club'', email = ''new@mergington.edu''\<rparr>] \<and>
   fst (unregister_from_activity seeded_db ''Chess Club'' ''michael@mergington.edu'') =
     Inr ''Unregistered michael@mergington.edu from Chess Club'' \<and>
   unique_enrollments seeded_db \<and>
   activities (snd (unregister_from_activity seeded_db ''Chess Club'' ''michael@mergington.edu'')) =
     activities seeded_db \<and>
   Suc (length (participants
          (snd (unregister_from_activity seeded_db ''Chess Club'' ''michael@mergington.edu'')))) =
     length (participants seeded_db)"
proof -
  have enroll: "fst (signup_for_activity seeded_db ''Chess Club'' ''new@mergington.edu'') =
     Inr ''Signed up new@mergington.edu for Chess Club''"
    by code_simp
  have withdraw:
    "fst (unregister_from_activity seeded_db ''Chess Club'' ''michael@mergington.edu'') =
     Inr ''Unregistered michael@mergington.edu from Chess Club''"
    by code_simp
  have seeded: "unique_enrollments seeded_db"
    by code_simp
  have added:
    "activities (snd (signup_for_activity seeded_db ''Chess Club'' ''new@mergington.edu'')) =
       activities seeded_db \<and>
     participants (snd (signup_for_activity seeded_db ''Chess Club'' ''new@mergington.edu'')) =
       participants seeded_db @
         [\<lparr>activity_name = ''Chess Club'', email = ''new@mergington.edu''\<rparr>]"
    using mutation_frame [of seeded_db "''Chess Club''" "''new@mergington.edu''"] enroll
    by blast
  have removed:
    "activities
       (snd (unregister_from_activity seeded_db ''Chess Club'' ''michael@mergington.edu'')) =
       activities seeded_db \<and>
     Suc (length (participants
          (snd (unregister_from_activity seeded_db ''Chess Club'' ''michael@mergington.edu'')))) =
       length (participants seeded_db)"
    using mutation_frame [of seeded_db "''Chess Club''" "''michael@mergington.edu''"]
      withdraw seeded
    by blast
  from added removed enroll withdraw seeded show ?thesis
    by blast
qed

end
